theory Spec2Isabelle
  imports Main "HOL-Library.Sublist"
begin

section \<open>Python strings and values\<close>

text \<open>
  The two scripts \<^verbatim>\<open>src/frontend/test-zk-proof.py\<close> and \<^verbatim>\<open>src/frontend/test-proof.py\<close>
  work on Python \<^verbatim>\<open>str\<close> values. A \<^verbatim>\<open>str\<close> is modelled as a \<^typ>\<open>string\<close>; the model
  covers ASCII text, where \<^verbatim>\<open>str.lower()\<close> maps \<^verbatim>\<open>A..Z\<close> to \<^verbatim>\<open>a..z\<close> and leaves every
  other character alone.
\<close>

definition lower_char :: "char \<Rightarrow> char" where
  "lower_char c =
     (let n = (of_char c :: nat) in if 65 \<le> n \<and> n \<le> 90 then char_of (n + 32) else c)"

definition lower :: "string \<Rightarrow> string" where
  "lower s = map lower_char s"

text \<open>\<^verbatim>\<open>sub in s\<close> on strings: \<^verbatim>\<open>sub\<close> occurs in \<^verbatim>\<open>s\<close> as a contiguous block.\<close>

fun py_in :: "string \<Rightarrow> string \<Rightarrow> bool" where
  "py_in sub [] = (sub = [])"
| "py_in sub (c # cs) = (prefix sub (c # cs) \<or> py_in sub cs)"

text \<open>\<^verbatim>\<open>str(n)\<close> for an integer, as an f-string prints it.\<close>

fun str_nat :: "nat \<Rightarrow> string" where
  "str_nat n =
     (if n < 10 then [char_of (48 + n)]
      else str_nat (n div 10) @ [char_of (48 + n mod 10)])"

definition str_int :: "int \<Rightarrow> string" where
  "str_int i = (if i < 0 then CHR ''-'' # str_nat (nat (- i)) else str_nat (nat i))"

text \<open>
  Python values carry their type at run time; the three kinds that matter for what a
  probe reports are told apart by this tag.
\<close>

datatype py_value = PyStr string | PyInt int | PyNone

section \<open>HTTP responses (\<^verbatim>\<open>page.request.get\<close>)\<close>

text \<open>
  A response as the scripts read it: \<^verbatim>\<open>response.status\<close> and the dictionary
  \<^verbatim>\<open>response.headers\<close>.
\<close>

record response =
  status :: int
  headers :: "string \<rightharpoonup> string"

text \<open>\<^verbatim>\<open>d.get(key, default)\<close>\<close>

definition dict_get :: "('k \<rightharpoonup> 'v) \<Rightarrow> 'k \<Rightarrow> 'v \<Rightarrow> 'v" where
  "dict_get d k dflt = (case d k of None \<Rightarrow> dflt | Some v \<Rightarrow> v)"

text \<open>
  The size a probe reports, \<^verbatim>\<open>response.headers.get('content-length', 'unknown')\<close>
  (test-zk-proof.py, lines 20, 24, 28): a \<^verbatim>\<open>str\<close> in both branches.
\<close>

definition content_length :: "response \<Rightarrow> py_value" where
  "content_length r = PyStr (dict_get (headers r) ''content-length'' ''unknown'')"

definition py_str :: "py_value \<Rightarrow> string" where
  "py_str v = (case v of PyStr s \<Rightarrow> s | PyInt i \<Rightarrow> str_int i | PyNone \<Rightarrow> ''None'')"

text \<open>
  The report line of one probe:
  \<^verbatim>\<open>f"   {name}: {response.status} ({response.headers.get('content-length', 'unknown')} bytes)"\<close>
\<close>

definition probe_line :: "string \<Rightarrow> response \<Rightarrow> string" where
  "probe_line name r =
     ''   '' @ name @ '': '' @ str_int (status r) @ '' ('' @ py_str (content_length r) @ '' bytes)''"

section \<open>Post-processing of the console log buffer\<close>


subsection \<open>test-zk-proof.py, lines 72--73 and 93--101\<close>

definition poseidon_logs :: "string list \<Rightarrow> string list" where
  "poseidon_logs console_logs =
     [log \<leftarrow> console_logs. py_in ''Poseidon'' log \<or> py_in ''commitment'' (lower log)]"

text \<open>
  The list \<^verbatim>\<open>zk_logs\<close> of line 73, named apart from the \<^verbatim>\<open>zk_logs\<close> of test-proof.py.
\<close>

definition zk_setup_logs :: "string list \<Rightarrow> string list" where
  "zk_setup_logs console_logs =
     [log \<leftarrow> console_logs.
        list_ex (\<lambda>kw. py_in kw (lower log)) [''zk'', ''proof'', ''snark'', ''circom'']]"

definition circuit_files_ok :: "response \<Rightarrow> response \<Rightarrow> response \<Rightarrow> bool" where
  "circuit_files_ok wasm_response zkey_response vk_response =
     (status wasm_response = 200 \<and> status zkey_response = 200 \<and> status vk_response = 200)"

definition poseidon_ok :: "string list \<Rightarrow> bool" where
  "poseidon_ok logs = list_ex (\<lambda>log. py_in ''Poseidon note created'' log) logs"

text \<open>
  The condition of the final \<^verbatim>\<open>if circuit_files_ok and poseidon_ok\<close> (line 101), as a
  function of the three probe responses and of the console buffer.
\<close>

definition overall_ok :: "response \<Rightarrow> response \<Rightarrow> response \<Rightarrow> string list \<Rightarrow> bool" where
  "overall_ok wasm_response zkey_response vk_response console_logs =
     (circuit_files_ok wasm_response zkey_response vk_response
      \<and> poseidon_ok (poseidon_logs console_logs))"

subsection \<open>test-proof.py, lines 134--138\<close>


text \<open>
  The comprehension of lines 137--138, over its two variables: the keyword list and
  the console buffer.
\<close>

definition zk_logs :: "string list \<Rightarrow> string list \<Rightarrow> string list" where
  "zk_logs keywords console_logs =
     [log \<leftarrow> console_logs. list_ex (\<lambda>kw. py_in (lower kw) (lower log)) keywords]"

subsection \<open>The specification's correlator and signal check\<close>

text \<open>
  Section 4.5 of the specification, in its own words: \<^verbatim>\<open>correlate\<close> is a
  case-insensitive substring filter over the events' text, and \<^verbatim>\<open>signalPresent\<close>
  (section 8) holds when some event's text contains the marker under case-insensitive
  comparison. They are what the code is compared with.
\<close>

definition spec_correlate :: "string list \<Rightarrow> string list \<Rightarrow> string list" where
  "spec_correlate events keywords =
     filter (\<lambda>e. list_ex (\<lambda>kw. py_in (lower kw) (lower e)) keywords) events"

definition spec_signalPresent :: "string list \<Rightarrow> string \<Rightarrow> bool" where
  "spec_signalPresent events marker = list_ex (\<lambda>e. py_in (lower marker) (lower e)) events"

section \<open>The browser, and a run of a script\<close>

text \<open>
  Both scripts drive one Playwright page. The page and the application behind it are a
  parameter of the model: a state \<open>'w\<close> (the world) and the Playwright calls the scripts
  make, each of which may raise (\<open>Some e\<close>, with the text of the exception) and leaves a
  new world. An element is a handle; \<^verbatim>\<open>page.locator(sel)\<close> resolves to the elements
  matching \<open>sel\<close> in document order, \<^verbatim>\<open>.count()\<close> is their number and \<^verbatim>\<open>.first\<close> the
  first of them. Locator queries and \<^verbatim>\<open>print\<close> are taken not to raise; launching the
  browser and opening the page happen before the model starts.
\<close>

type_synonym element = nat

datatype call =
    RequestGet string
  | Goto string
  | WaitForLoadState string
  | Screenshot string
  | WaitForTimeout nat
  | Count string
  | Click element bool
  | Fill element string
  | Close

record 'w browser =
  perform :: "call \<Rightarrow> 'w \<Rightarrow> string option \<times> 'w"
  request_get :: "string \<Rightarrow> 'w \<Rightarrow> (string + response) \<times> 'w"
  locator :: "string \<Rightarrow> 'w \<Rightarrow> element list"
  console :: "'w \<Rightarrow> (string \<times> string) list"

text \<open>
  The state of a run: the world, the Playwright calls made so far (a log kept by the
  model, oldest first) and the lines printed so far.
\<close>

record 'w run =
  world :: 'w
  calls :: "call list"
  out :: "string list"

text \<open>
  A statement maps the state to the new state and to the exception it raised, if any.
  The state at the point of the raise is kept: an \<^verbatim>\<open>except\<close> clause continues from it.
\<close>

type_synonym 'w prog = "'w run \<Rightarrow> string option \<times> 'w run"

definition skip :: "'w prog" where
  "skip s = (None, s)"

definition seq :: "'w prog \<Rightarrow> 'w prog \<Rightarrow> 'w prog" where
  "seq p q s = (case p s of (None, s') \<Rightarrow> q s' | (Some e, s') \<Rightarrow> (Some e, s'))"

definition block :: "'w prog list \<Rightarrow> 'w prog" where
  "block ps = foldr seq ps skip"

text \<open>\<^verbatim>\<open>try: p  except Exception as e: h(e)\<close>\<close>

definition try_except :: "'w prog \<Rightarrow> (string \<Rightarrow> 'w prog) \<Rightarrow> 'w prog" where
  "try_except p h s = (case p s of (None, s') \<Rightarrow> (None, s') | (Some e, s') \<Rightarrow> h e s')"

definition print :: "string \<Rightarrow> 'w prog" where
  "print line s = (None, s\<lparr>out := out s @ [line]\<rparr>)"


text \<open>One Playwright call that returns nothing: goto, waits, screenshot, click, fill, close.\<close>

definition do_call :: "'w browser \<Rightarrow> call \<Rightarrow> 'w prog" where
  "do_call B c s =
     (case perform B c (world s) of
        (r, w') \<Rightarrow> (r, s\<lparr>world := w', calls := calls s @ [c]\<rparr>))"

text \<open>\<^verbatim>\<open>response = page.request.get(url)\<close>, followed by the statements that use the response.\<close>

definition page_request_get :: "'w browser \<Rightarrow> string \<Rightarrow> (response \<Rightarrow> 'w prog) \<Rightarrow> 'w prog" where
  "page_request_get B url k s =
     (case request_get B url (world s) of
        (Inl e, w') \<Rightarrow> (Some e, s\<lparr>world := w', calls := calls s @ [RequestGet url]\<rparr>)
      | (Inr resp, w') \<Rightarrow> k resp (s\<lparr>world := w', calls := calls s @ [RequestGet url]\<rparr>))"

text \<open>
  \<^verbatim>\<open>loc = page.locator(sel)\<close>
  \<^verbatim>\<open>if loc.count() > 0: body  else: alt\<close>
\<close>

definition if_count :: "'w browser \<Rightarrow> string \<Rightarrow> 'w prog \<Rightarrow> 'w prog \<Rightarrow> 'w prog" where
  "if_count B sel body alt s =
     (if length (locator B sel (world s)) > 0
      then body (s\<lparr>calls := calls s @ [Count sel]\<rparr>)
      else alt (s\<lparr>calls := calls s @ [Count sel]\<rparr>))"

text \<open>
  \<^verbatim>\<open>loc.first.click(force=...)\<close> and \<^verbatim>\<open>loc.first.fill(text)\<close>: the action goes to the
  first match; with no match Playwright waits and then raises a timeout.
\<close>

definition first_click :: "'w browser \<Rightarrow> string \<Rightarrow> bool \<Rightarrow> 'w prog" where
  "first_click B sel force s =
     (case locator B sel (world s) of
        [] \<Rightarrow> (Some ''TimeoutError'', s)
      | e # _ \<Rightarrow> do_call B (Click e force) s)"

definition first_fill :: "'w browser \<Rightarrow> string \<Rightarrow> string \<Rightarrow> 'w prog" where
  "first_fill B sel txt s =
     (case locator B sel (world s) of
        [] \<Rightarrow> (Some ''TimeoutError'', s)
      | e # _ \<Rightarrow> do_call B (Fill e txt) s)"


subsection \<open>Selectors\<close>

definition sel_generate :: string where
  \<open>sel_generate = ''button:has-text("Generate")''\<close>

definition sel_continue :: string where
  \<open>sel_continue = ''button:has-text("Continue")''\<close>

definition sel_amount :: string where
  \<open>sel_amount = ''input[type="number"]''\<close>

definition sel_checkbox_label :: string where
  \<open>sel_checkbox_label = ''label:has(input[type="checkbox"])''\<close>

definition sel_checkbox_container :: string where
  \<open>sel_checkbox_container = ''div:has(> input[type="checkbox"])''\<close>

definition sel_checkbox_input :: string where
  \<open>sel_checkbox_input = ''input[type="checkbox"]''\<close>

definition sel_deposit :: string where
  \<open>sel_deposit = ''button:has-text("Get Deposit Address")''\<close>

definition sel_sent :: string where
  \<open>sel_sent = ''button:has-text("Sent the BTC")''\<close>

definition sel_mock :: string where
  \<open>sel_mock = ''button:has-text("Mock")''\<close>

definition sel_mint :: string where
  \<open>sel_mint = ''button:has-text("Mint")''\<close>


definition apostrophe :: string where
  "apostrophe = [CHR 0x27]"

subsection \<open>test-proof.py: \<^verbatim>\<open>test_deposit_flow\<close>\<close>

text \<open>Lines 29--33.\<close>

definition generate_step :: "'w browser \<Rightarrow> 'w prog" where
  "generate_step B =
     if_count B sel_generate
       (block [first_click B sel_generate False,
               do_call B (WaitForTimeout 500),
               print (''   Clicked '' @ apostrophe @ ''Generate'' @ apostrophe @ '' button'')])
       skip"

text \<open>Lines 39--43.\<close>

definition continue_step :: "'w browser \<Rightarrow> 'w prog" where
  "continue_step B =
     if_count B sel_continue
       (block [first_click B sel_continue False,
               do_call B (WaitForTimeout 500),
               print (''   Clicked '' @ apostrophe @ ''Continue'' @ apostrophe @ '' button'')])
       skip"


text \<open>Lines 52--55.\<close>

definition amount_step :: "'w browser \<Rightarrow> 'w prog" where
  "amount_step B =
     if_count B sel_amount
       (block [first_fill B sel_amount ''10000'',
               print ''   Entered amount: 10000''])
       skip"

text \<open>Lines 61--70.\<close>

definition checkbox_step :: "'w browser \<Rightarrow> 'w prog" where
  "checkbox_step B =
     if_count B sel_checkbox_label
       (block [first_click B sel_checkbox_label False,
               print ''   Clicked confirmation checkbox label''])
       (if_count B sel_checkbox_container
          (block [first_click B sel_checkbox_container True,
                  print ''   Clicked checkbox container''])
          skip)"

text \<open>Lines 75--80.\<close>

definition deposit_step :: "'w browser \<Rightarrow> 'w prog" where
  "deposit_step B =
     if_count B sel_deposit
       (block [first_click B sel_deposit False,
               print (''   Clicked '' @ apostrophe @ ''Get Deposit Address'' @ apostrophe @ '' button''),
               print ''   Waiting for Poseidon init and address generation...'',
               do_call B (WaitForTimeout 5000)])
       skip"


text \<open>Lines 90--94.\<close>

definition sent_step :: "'w browser \<Rightarrow> 'w prog" where
  "sent_step B =
     if_count B sel_sent
       (block [first_click B sel_sent False,
               print (''   Clicked '' @ apostrophe @ ''I'' @ apostrophe @ ''ve Sent the BTC''
                      @ apostrophe @ '' button''),
               do_call B (WaitForTimeout 3000)])
       skip"


text \<open>Lines 105--109.\<close>

definition mock_step :: "'w browser \<Rightarrow> 'w prog" where
  "mock_step B =
     if_count B sel_mock
       (block [first_click B sel_mock False,
               print ''   Clicked mock confirmation button'',
               do_call B (WaitForTimeout 3000)])
       skip"

text \<open>Lines 112--117.\<close>

definition mint_step :: "'w browser \<Rightarrow> 'w prog" where
  "mint_step B =
     if_count B sel_mint
       (block [print (''   Found '' @ apostrophe @ ''Mint'' @ apostrophe @ '' button - clicking...''),
               first_click B sel_mint False,
               print (''   Clicked '' @ apostrophe @ ''Mint'' @ apostrophe
                      @ '' button - waiting for ZK proof generation...''),
               do_call B (WaitForTimeout 10000)])
       skip"









subsection \<open>test-zk-proof.py: \<^verbatim>\<open>test_zk_setup\<close>\<close>

text \<open>Lines 35--39.\<close>

definition zk_generate_step :: "'w browser \<Rightarrow> 'w prog" where
  "zk_generate_step B =
     if_count B sel_generate
       (block [first_click B sel_generate False,
               do_call B (WaitForTimeout 500),
               print ''   Generated secret note''])
       skip"

text \<open>Lines 41--45.\<close>

definition zk_continue_step :: "'w browser \<Rightarrow> 'w prog" where
  "zk_continue_step B =
     if_count B sel_continue
       (block [first_click B sel_continue False,
               do_call B (WaitForTimeout 500),
               print ''   Continued to amount step''])
       skip"

text \<open>Lines 48--51.\<close>

definition zk_amount_step :: "'w browser \<Rightarrow> 'w prog" where
  "zk_amount_step B =
     if_count B sel_amount
       (block [first_fill B sel_amount ''10000'',
               print ''   Entered amount: 10000''])
       skip"

text \<open>Lines 54--57.\<close>

definition zk_checkbox_step :: "'w browser \<Rightarrow> 'w prog" where
  "zk_checkbox_step B =
     if_count B sel_checkbox_label
       (block [first_click B sel_checkbox_label False,
               print ''   Checked confirmation checkbox''])
       skip"

text \<open>Lines 62--67.\<close>

definition zk_deposit_step :: "'w browser \<Rightarrow> 'w prog" where
  "zk_deposit_step B =
     if_count B sel_deposit
       (block [first_click B sel_deposit False,
               print (''   Clicked '' @ apostrophe @ ''Get Deposit Address'' @ apostrophe),
               print ''   Waiting for Poseidon initialization and note creation...'',
               do_call B (WaitForTimeout 5000)])
       skip"

text \<open>Lines 75--105: what is printed from the probe responses and the console buffer.\<close>

definition yes_no :: "bool \<Rightarrow> string" where
  "yes_no b = (if b then ''YES'' else ''NO'')"

definition verification_summary ::
  "response \<Rightarrow> response \<Rightarrow> response \<Rightarrow> string list \<Rightarrow> string list" where
  "verification_summary wasm_response zkey_response vk_response console_logs =
     [''\<newline>'' @ replicate 60 (CHR ''=''),
      ''POSEIDON/COMMITMENT LOGS:'',
      replicate 60 (CHR ''='')]
     @ poseidon_logs console_logs
     @ (if zk_setup_logs console_logs \<noteq> []
        then [''\<newline>'' @ replicate 60 (CHR ''=''),
              ''ZK PROOF LOGS:'',
              replicate 60 (CHR ''='')] @ zk_setup_logs console_logs
        else [])
     @ [''\<newline>'' @ replicate 60 (CHR ''=''),
        ''VERIFICATION SUMMARY:'',
        replicate 60 (CHR ''=''),
        ''  Circuit files accessible: ''
          @ yes_no (circuit_files_ok wasm_response zkey_response vk_response),
        ''  Poseidon note creation: '' @ yes_no (poseidon_ok (poseidon_logs console_logs))]
     @ (if overall_ok wasm_response zkey_response vk_response console_logs
        then [''\<newline>  ZK integration is properly set up!'',
              ''  Proof generation will work when deposit is confirmed.'']
        else [''\<newline>  Some components are missing.''])"





subsection \<open>The steps of the two scripts\<close>

text \<open>
  Every step of the two scripts, with the selectors it queries, in the order in which
  it queries them.
\<close>

definition ui_steps :: "'w browser \<Rightarrow> (string list \<times> 'w prog) list" where
  "ui_steps B =
     [([sel_generate], generate_step B),
      ([sel_continue], continue_step B),
      ([sel_amount], amount_step B),
      ([sel_checkbox_label, sel_checkbox_container], checkbox_step B),
      ([sel_deposit], deposit_step B),
      ([sel_sent], sent_step B),
      ([sel_mock], mock_step B),
      ([sel_mint], mint_step B),
      ([sel_generate], zk_generate_step B),
      ([sel_continue], zk_continue_step B),
      ([sel_amount], zk_amount_step B),
      ([sel_checkbox_label], zk_checkbox_step B),
      ([sel_deposit], zk_deposit_step B)]"

subsection \<open>Reading a run\<close>

text \<open>The state in which a script starts: nothing called, nothing printed.\<close>

definition start :: "'w \<Rightarrow> 'w run" where
  "start w = \<lparr>world = w, calls = [], out = []\<rparr>"

text \<open>The calls made between two states of a run, and the elements they acted upon.\<close>

definition new_calls :: "'w run \<Rightarrow> 'w run \<Rightarrow> call list" where
  "new_calls s s' = drop (length (calls s)) (calls s')"

fun acted_on :: "call list \<Rightarrow> element list" where
  "acted_on [] = []"
| "acted_on (Click e force # cs) = e # acted_on cs"
| "acted_on (Fill e txt # cs) = e # acted_on cs"
| "acted_on (c # cs) = acted_on cs"

text \<open>
  Properties of statements: \<open>no_raise p\<close>, the statement never raises; \<open>grows p\<close>, it
  only appends to the call log and to the output; \<open>after p Q\<close>, the property \<open>Q\<close> holds
  of the state it leaves; \<open>stable Q\<close>, the property survives such appending.
\<close>

definition no_raise :: "'w prog \<Rightarrow> bool" where
  "no_raise p = (\<forall>s. fst (p s) = None)"





subsection \<open>Example browsers\<close>

text \<open>
  Small browsers on which the scripts can be run: every probe answers 200 with a
  content length, the console holds one message, the selectors match as \<open>matches\<close> says
  and a call raises what \<open>fails\<close> says.
\<close>

definition example_response :: response where
  "example_response = \<lparr>status = 200, headers = [''content-length'' \<mapsto> ''1234'']\<rparr>"

definition example_logs :: "string list" where
  "example_logs = [''[log] a'', ''[log] Minting'', ''[log] b'', ''[info] zk proof'']"

definition ok_response :: response where
  "ok_response = \<lparr>status = 200, headers = Map.empty\<rparr>"

definition not_found_response :: response where
  "not_found_response = \<lparr>status = 404, headers = Map.empty\<rparr>"

definition example_browser ::
  "(string \<Rightarrow> element list) \<Rightarrow> (call \<Rightarrow> string option) \<Rightarrow> unit browser" where
  "example_browser matches fails =
     \<lparr>perform = (\<lambda>c w. (fails c, w)),
      request_get = (\<lambda>url w. (Inr example_response, w)),
      locator = (\<lambda>sel w. matches sel),
      console = (\<lambda>w. [(''log'', ''Poseidon note created'')])\<rparr>"

definition all_match :: "string \<Rightarrow> element list" where
  "all_match sel = [7, 3, 9]"

definition no_match :: "string \<Rightarrow> element list" where
  "no_match sel = []"

definition container_only :: "string \<Rightarrow> element list" where
  "container_only sel = (if sel = sel_checkbox_container then [6, 2] else [])"

definition never_fails :: "call \<Rightarrow> string option" where
  "never_fails c = None"

definition click_fails :: "call \<Rightarrow> string option" where
  "click_fails c =
     (case c of Click e force \<Rightarrow> Some ''Timeout 30000ms exceeded.'' | _ \<Rightarrow> None)"

section \<open>Facts about strings\<close>

lemma py_in_sublist: "py_in sub s = sublist sub s"
  by (induction s) (simp_all add: sublist_Cons_right)

lemma py_in_trans: "py_in a b \<Longrightarrow> py_in b c \<Longrightarrow> py_in a c"
  unfolding py_in_sublist by (rule sublist_order.order_trans)

lemma Poseidon_in_marker: "py_in ''Poseidon'' ''Poseidon note created''"
  by simp

lemma marker_has_Poseidon:
  "py_in ''Poseidon note created'' log \<Longrightarrow> py_in ''Poseidon'' log"
  by (rule py_in_trans [OF Poseidon_in_marker])

lemma poseidon_ok_filtered:
  "poseidon_ok (poseidon_logs console_logs) = poseidon_ok console_logs"
  unfolding poseidon_ok_def poseidon_logs_def list_ex_iff
  by (auto dest: marker_has_Poseidon)

lemma py_in_decomp: "py_in sub s \<longleftrightarrow> (\<exists>pre post. s = pre @ sub @ post)"
  by (simp add: py_in_sublist sublist_def)

lemma zk_setup_keywords_lower:
  "map lower [''zk'', ''proof'', ''snark'', ''circom''] = [''zk'', ''proof'', ''snark'', ''circom'']"
  by code_simp

lemma list_ex_lower_keywords:
  "list_ex (\<lambda>kw. py_in (lower kw) t) keywords \<longleftrightarrow> (\<exists>k \<in> lower ` set keywords. py_in k t)"
  by (auto simp: list_ex_iff)

lemma summary_last:
  "last (verification_summary w z v console_logs) =
     (if overall_ok w z v console_logs
      then ''  Proof generation will work when deposit is confirmed.''
      else ''\<newline>  Some components are missing.'')"
  by (simp add: verification_summary_def)

section \<open>The verdict of test-zk-proof.py\<close>

text \<open>
  C1. The final verdict is the conjunction of the resource check and the log-signal
  check: the condition of line 101 holds exactly when the three probes (deposit.wasm,
  deposit_final.zkey, deposit_vk.json) returned status 200 and some buffered console
  log contains the phrase \<^verbatim>\<open>Poseidon note created\<close>. The summary ends with the success
  lines exactly in that case.
\<close>

theorem overall_ok_iff:
  "(overall_ok wasm_response zkey_response vk_response console_logs \<longleftrightarrow>
     (status wasm_response = 200 \<and> status zkey_response = 200 \<and> status vk_response = 200)
     \<and> (\<exists>log \<in> set console_logs. py_in ''Poseidon note created'' log))
   \<and> (last (verification_summary wasm_response zkey_response vk_response console_logs)
        = ''  Proof generation will work when deposit is confirmed.''
      \<longleftrightarrow> overall_ok wasm_response zkey_response vk_response console_logs)"
proof -
  have "poseidon_ok console_logs \<longleftrightarrow>
          (\<exists>log \<in> set console_logs. py_in ''Poseidon note created'' log)"
    by (simp add: poseidon_ok_def list_ex_iff)
  then show ?thesis
    by (simp add: overall_ok_def circuit_files_ok_def poseidon_ok_filtered summary_last)
qed

theorem overall_ok_iff_witness:
  "overall_ok ok_response ok_response ok_response [''[log] Poseidon note created: 0x1a'']
   \<and> \<not> overall_ok ok_response not_found_response ok_response [''[log] Poseidon note created: 0x1a'']
   \<and> \<not> overall_ok ok_response ok_response ok_response [''[error] Poseidon init failed'']"
  using overall_ok_iff [of ok_response ok_response ok_response "[''[log] Poseidon note created: 0x1a'']"]
    overall_ok_iff [of ok_response not_found_response ok_response "[''[log] Poseidon note created: 0x1a'']"]
    overall_ok_iff [of ok_response ok_response ok_response "[''[error] Poseidon init failed'']"]
  by (simp add: ok_response_def not_found_response_def)

text \<open>
  C2, as the claim states it: the success-signal check agrees with a case-insensitive
  search for the marker. It does not: line 98 compares with \<^verbatim>\<open>in\<close>, which is
  case-sensitive, so a log that spells the marker in lower case is not a signal.
\<close>

theorem signal_check_counterexample:
  "poseidon_ok (poseidon_logs [''[log] poseidon note created''])
     \<noteq> spec_signalPresent [''[log] poseidon note created''] ''Poseidon note created''"
  by code_simp

text \<open>
  C2, amended: for every sequence of buffered logs the success-signal check is true
  exactly when some log contains the marker \<^verbatim>\<open>Poseidon note created\<close> as a substring,
  letter case included, and it is false on the empty sequence.
\<close>

theorem signal_check_case_sensitive:
  "(poseidon_ok (poseidon_logs console_logs) \<longleftrightarrow>
      (\<exists>log \<in> set console_logs. \<exists>pre post. log = pre @ ''Poseidon note created'' @ post))
   \<and> poseidon_ok (poseidon_logs []) = False"
  by (simp add: poseidon_ok_filtered) (simp add: poseidon_ok_def list_ex_iff py_in_decomp)

theorem signal_check_case_sensitive_witness:
  "(\<exists>log \<in> set [''[info] ready'', ''[log] Poseidon note created: 0x1a''].
      \<exists>pre post. log = pre @ ''Poseidon note created'' @ post)
   \<and> \<not> (\<exists>log \<in> set [''[log] POSEIDON NOTE CREATED''].
      \<exists>pre post. log = pre @ ''Poseidon note created'' @ post)"
proof -
  have a: "poseidon_ok (poseidon_logs [''[info] ready'', ''[log] Poseidon note created: 0x1a''])"
    by code_simp
  have b: "\<not> poseidon_ok (poseidon_logs [''[log] POSEIDON NOTE CREATED''])"
    by code_simp
  show ?thesis
    using a b
      signal_check_case_sensitive [of "[''[info] ready'', ''[log] Poseidon note created: 0x1a'']"]
      signal_check_case_sensitive [of "[''[log] POSEIDON NOTE CREATED'']"]
    by blast
qed

text \<open>
  C10. Checking the marker over the pre-filtered Poseidon/commitment logs is the same
  as checking it over the whole buffer: a log that contains the marker contains the
  keyword \<^verbatim>\<open>Poseidon\<close> and so passes the filter of line 72.
\<close>

theorem marker_check_on_filtered_logs:
  "((\<exists>log \<in> set (poseidon_logs console_logs). py_in ''Poseidon note created'' log)
      \<longleftrightarrow> (\<exists>log \<in> set console_logs. py_in ''Poseidon note created'' log))
   \<and> (py_in ''Poseidon note created'' log
        \<longrightarrow> py_in ''Poseidon'' log \<and> poseidon_logs [log] = [log])"
  using poseidon_ok_filtered [of console_logs] marker_has_Poseidon [of log]
  by (simp add: poseidon_ok_def list_ex_iff poseidon_logs_def)

theorem marker_check_on_filtered_logs_witness:
  "(\<exists>log \<in> set (poseidon_logs [''[log] zk ready'', ''[log] Poseidon note created'']).
      py_in ''Poseidon note created'' log)
   \<and> py_in ''Poseidon note created'' ''[log] Poseidon note created''
   \<and> py_in ''Poseidon'' ''[log] Poseidon note created''
   \<and> poseidon_logs [''[log] Poseidon note created''] = [''[log] Poseidon note created'']"
proof -
  have a: "py_in ''Poseidon note created'' ''[log] Poseidon note created''"
    by simp
  show ?thesis
    using a
      marker_check_on_filtered_logs [of "[''[log] zk ready'', ''[log] Poseidon note created'']"
        "''[log] Poseidon note created''"]
    by simp
qed

section \<open>Resource probes\<close>

text \<open>
  C6. A probe counts as ok exactly when its response status is 200, and the aggregated
  \<^verbatim>\<open>circuit_files_ok\<close> holds exactly when that is so for each of the three probes; a
  probe that returned 404 makes it false.
\<close>

theorem circuit_files_ok_iff_200:
  "(circuit_files_ok wasm_response zkey_response vk_response \<longleftrightarrow>
      (\<forall>r \<in> set [wasm_response, zkey_response, vk_response]. status r = 200))
   \<and> (status wasm_response = 404 \<or> status zkey_response = 404 \<or> status vk_response = 404
        \<longrightarrow> \<not> circuit_files_ok wasm_response zkey_response vk_response)"
  by (auto simp: circuit_files_ok_def)

theorem circuit_files_ok_iff_200_witness:
  "circuit_files_ok ok_response ok_response ok_response \<and> \<not> circuit_files_ok ok_response ok_response not_found_response"
  using circuit_files_ok_iff_200 [of ok_response ok_response ok_response]
    circuit_files_ok_iff_200 [of ok_response ok_response not_found_response]
  by (simp add: ok_response_def not_found_response_def)

text \<open>
  C7, as the claim states it: a content-length header \<^verbatim>\<open>"1234"\<close> is reported as the
  integer 1234, and a missing header as an absent value. Neither holds: lines 20, 24 and
  28 report the header's string as it is, and the string \<^verbatim>\<open>unknown\<close> when it is missing.
\<close>

theorem content_length_counterexample:
  "content_length example_response \<noteq> PyInt 1234
   \<and> content_length not_found_response \<noteq> PyNone"
  by (simp add: content_length_def)

text \<open>
  C7, amended: a probe reports the content-length header as the string the response
  carries (no integer is parsed), and the string \<^verbatim>\<open>unknown\<close> when the header is missing;
  the report line prints that string between the status and the word \<^verbatim>\<open>bytes\<close>.
\<close>

theorem content_length_raw_header:
  "(headers r ''content-length'' = Some v \<longrightarrow>
      content_length r = PyStr v
      \<and> probe_line name r = ''   '' @ name @ '': '' @ str_int (status r) @ '' ('' @ v @ '' bytes)'')
   \<and> (headers r ''content-length'' = None \<longrightarrow>
      content_length r = PyStr ''unknown''
      \<and> probe_line name r = ''   '' @ name @ '': '' @ str_int (status r) @ '' (unknown bytes)'')"
  by (simp add: content_length_def probe_line_def dict_get_def py_str_def)

theorem content_length_raw_header_witness:
  "content_length example_response = PyStr ''1234''
   \<and> probe_line ''deposit.wasm'' example_response
       = ''   deposit.wasm: 200 (1234 bytes)''
   \<and> content_length not_found_response = PyStr ''unknown''
   \<and> probe_line ''deposit.wasm'' not_found_response = ''   deposit.wasm: 404 (unknown bytes)''"
proof -
  have a: "str_int 200 = ''200''" by code_simp
  have b: "str_int 404 = ''404''" by code_simp
  show ?thesis
    using a b
      content_length_raw_header [of example_response "''1234''" "''deposit.wasm''"]
      content_length_raw_header [of not_found_response "''x''" "''deposit.wasm''"]
    by (simp add: example_response_def not_found_response_def)
qed

section \<open>Keyword filters\<close>

text \<open>
  C3, as the claim states it: every keyword filter of the scripts is the
  case-insensitive substring filter of its keywords. The filter of line 72 of
  test-zk-proof.py is not: it looks for \<^verbatim>\<open>Poseidon\<close> in the log as written, so a log that
  spells the keyword in lower case is dropped.
\<close>

theorem keyword_filter_counterexample:
  "poseidon_logs [''[log] poseidon ready'']
     \<noteq> spec_correlate [''[log] poseidon ready''] [''Poseidon'', ''commitment'']"
  by code_simp

text \<open>
  C3, amended: each of the three keyword filters returns an order-preserving
  subsequence of the console buffer. The filter of test-proof.py is the case-insensitive
  substring filter for every keyword list, so keyword lists that agree up to letter case
  give the same output; the \<^verbatim>\<open>zk_logs\<close> filter of test-zk-proof.py is the
  case-insensitive filter of its four lower-case keywords; its \<^verbatim>\<open>poseidon_logs\<close>
  filter keeps the logs that contain \<^verbatim>\<open>Poseidon\<close> as written or \<^verbatim>\<open>commitment\<close> in any
  letter case.
\<close>

theorem keyword_filters_subseq:
  "subseq (zk_logs keywords console_logs) console_logs
   \<and> subseq (poseidon_logs console_logs) console_logs
   \<and> subseq (zk_setup_logs console_logs) console_logs
   \<and> zk_logs keywords console_logs = spec_correlate console_logs keywords
   \<and> (lower ` set keywords = lower ` set keywords'
        \<longrightarrow> zk_logs keywords console_logs = zk_logs keywords' console_logs)
   \<and> zk_setup_logs console_logs
       = spec_correlate console_logs [''zk'', ''proof'', ''snark'', ''circom'']
   \<and> set (poseidon_logs console_logs)
       = {log \<in> set console_logs. py_in ''Poseidon'' log}
         \<union> set (spec_correlate console_logs [''commitment''])"
proof -
  have l: "lower ''commitment'' = ''commitment''" by code_simp
  have "zk_setup_logs console_logs
          = spec_correlate console_logs [''zk'', ''proof'', ''snark'', ''circom'']"
    using zk_setup_keywords_lower by (simp add: zk_setup_logs_def spec_correlate_def)
  moreover have "set (poseidon_logs console_logs)
       = {log \<in> set console_logs. py_in ''Poseidon'' log}
         \<union> set (spec_correlate console_logs [''commitment''])"
    by (auto simp: poseidon_logs_def spec_correlate_def l)
  moreover have "lower ` set keywords = lower ` set keywords'
        \<longrightarrow> zk_logs keywords console_logs = zk_logs keywords' console_logs"
    by (simp add: zk_logs_def list_ex_lower_keywords)
  ultimately show ?thesis
    by (simp add: zk_logs_def poseidon_logs_def zk_setup_logs_def spec_correlate_def)
qed

theorem keyword_filters_subseq_witness:
  "lower ` set [''ZK'', ''Mint''] = lower ` set [''mint'', ''zk'', ''MINT'']
   \<and> zk_logs [''ZK'', ''Mint''] example_logs = zk_logs [''mint'', ''zk'', ''MINT''] example_logs
   \<and> subseq (zk_logs [''ZK'', ''Mint''] example_logs) example_logs"
proof -
  have h: "lower ` set [''ZK'', ''Mint''] = lower ` set [''mint'', ''zk'', ''MINT'']"
    by code_simp
  note t = keyword_filters_subseq [of "[''ZK'', ''Mint'']" example_logs "[''mint'', ''zk'', ''MINT'']"]
  from t h
  have e: "zk_logs [''ZK'', ''Mint''] example_logs = zk_logs [''mint'', ''zk'', ''MINT''] example_logs"
    by blast
  from t have u: "subseq (zk_logs [''ZK'', ''Mint''] example_logs) example_logs"
    by blast
  from h e u show ?thesis by blast
qed

section \<open>Facts about statements\<close>

lemma block_Nil [simp]: "block [] = skip"
  by (simp add: block_def)

lemma block_Cons [simp]: "block (p # ps) = seq p (block ps)"
  by (simp add: block_def)

lemma print_apply [simp]: "print l s = (None, s\<lparr>out := out s @ [l]\<rparr>)"
  by (simp add: print_def)

lemma seq_print [simp]: "seq (print l) q s = q (s\<lparr>out := out s @ [l]\<rparr>)"
  by (simp add: seq_def)

lemma seq_skip_left [simp]: "seq skip q = q"
  by (rule ext) (simp add: seq_def skip_def)

lemma seq_skip_right [simp]: "seq p skip = p"
  by (rule ext) (simp add: seq_def skip_def split: prod.splits option.splits)




lemma if_count_Nil:
  "locator B sel (world s) = [] \<Longrightarrow>
     if_count B sel body alt s = alt (s\<lparr>calls := calls s @ [Count sel]\<rparr>)"
  by (simp add: if_count_def)

lemma if_count_Cons:
  "locator B sel (world s) = e # es \<Longrightarrow>
     if_count B sel body alt s = body (s\<lparr>calls := calls s @ [Count sel]\<rparr>)"
  by (simp add: if_count_def)

lemma first_click_Cons:
  "locator B sel (world s) = e # es \<Longrightarrow> first_click B sel force s = do_call B (Click e force) s"
  by (simp add: first_click_def)

lemma first_fill_Cons:
  "locator B sel (world s) = e # es \<Longrightarrow> first_fill B sel txt s = do_call B (Fill e txt) s"
  by (simp add: first_fill_def)

lemma seq_first_click:
  "locator B sel (world s) = e # es \<Longrightarrow>
     seq (first_click B sel force) q s = seq (do_call B (Click e force)) q s"
  by (simp add: seq_def first_click_Cons)

lemma seq_first_fill:
  "locator B sel (world s) = e # es \<Longrightarrow>
     seq (first_fill B sel txt) q s = seq (do_call B (Fill e txt)) q s"
  by (simp add: seq_def first_fill_Cons)

lemmas step_defs = generate_step_def continue_step_def amount_step_def checkbox_step_def
  deposit_step_def sent_step_def mock_step_def mint_step_def zk_generate_step_def
  zk_continue_step_def zk_amount_step_def zk_checkbox_step_def zk_deposit_step_def

lemmas run_simps = seq_def do_call_def if_count_def first_click_def first_fill_def
  page_request_get_def try_except_def skip_def start_def example_browser_def all_match_def
  no_match_def container_only_def click_fails_def never_fails_def

subsection \<open>Statements that never raise\<close>


lemma no_raise_skip: "no_raise skip"
  by (simp add: no_raise_def skip_def)

lemma no_raise_print: "no_raise (print l)"
  by (simp add: no_raise_def)

lemma no_raise_seq: "no_raise p \<Longrightarrow> no_raise q \<Longrightarrow> no_raise (seq p q)"
  by (auto simp: no_raise_def seq_def split: prod.splits option.splits)
     (metis fst_conv option.distinct(1))

lemma seq_no_raiseD: "no_raise p \<Longrightarrow> no_raise q \<Longrightarrow> fst (seq p q s) = None"
  using no_raise_seq [of p q] by (simp add: no_raise_def)


lemma no_raise_do_call: "\<forall>w. fst (perform B c w) = None \<Longrightarrow> no_raise (do_call B c)"
  by (auto simp: no_raise_def do_call_def split: prod.splits) (metis fst_conv)








subsection \<open>Statements only append to the call log and to the output\<close>
















subsection \<open>What holds after a statement\<close>














subsection \<open>The two scripts as a whole\<close>







lemma step_acts_on_first:
  assumes "(sel # rest, step) \<in> set (ui_steps B)"
    and "locator B sel (world s) = e # es"
  shows "acted_on (new_calls s (snd (step s))) = [e]"
  using assms unfolding ui_steps_def step_defs
  by (auto simp: if_count_Cons first_click_Cons first_fill_Cons seq_def do_call_def new_calls_def
           skip_def split: prod.splits option.splits)

lemma step_no_raise:
  assumes "(sel # rest, step) \<in> set (ui_steps B)"
    and "locator B sel (world s) = e # es"
    and "\<forall>c w. fst (perform B c w) = None"
  shows "fst (step s) = None"
  using assms unfolding ui_steps_def step_defs
  by (auto simp: if_count_Cons seq_first_click seq_first_fill
           intro!: seq_no_raiseD no_raise_seq no_raise_do_call no_raise_print no_raise_skip)

section \<open>Steps\<close>

text \<open>
  C5. A step whose selectors match no element does nothing and does not raise: each
  selector is queried and counts zero, no action is taken, nothing is printed, and the
  statement after the step runs next. (No step of the scripts is required; the checkbox
  step of test-proof.py queries its two selectors in turn.)
\<close>

theorem absent_step_skipped:
  assumes "(sels, step) \<in> set (ui_steps B)"
    and "\<forall>sel \<in> set sels. locator B sel (world s) = []"
  shows "step s = (None, s\<lparr>calls := calls s @ map Count sels\<rparr>)
       \<and> seq step next_step s = next_step (s\<lparr>calls := calls s @ map Count sels\<rparr>)"
proof -
  have "step s = (None, s\<lparr>calls := calls s @ map Count sels\<rparr>)"
    using assms unfolding ui_steps_def step_defs
    by (auto simp: if_count_Nil skip_def)
  then show ?thesis by (simp add: seq_def)
qed

theorem absent_step_skipped_witness:
  "([sel_checkbox_label, sel_checkbox_container],
      checkbox_step (example_browser no_match never_fails))
      \<in> set (ui_steps (example_browser no_match never_fails))
   \<and> locator (example_browser no_match never_fails) sel_checkbox_label (world (start ())) = []
   \<and> locator (example_browser no_match never_fails) sel_checkbox_container
       (world (start ())) = []
   \<and> checkbox_step (example_browser no_match never_fails) (start ())
       = (None, \<lparr>world = (), calls = [Count sel_checkbox_label, Count sel_checkbox_container],
                 out = []\<rparr>)"
proof -
  let ?B = "example_browser no_match never_fails"
  have a: "([sel_checkbox_label, sel_checkbox_container], checkbox_step ?B) \<in> set (ui_steps ?B)"
    by (simp add: ui_steps_def)
  have b: "\<forall>sel \<in> set [sel_checkbox_label, sel_checkbox_container].
             locator ?B sel (world (start ())) = []"
    by (simp add: example_browser_def no_match_def)
  show ?thesis
    using a b absent_step_skipped [OF a b] by (simp add: start_def)
qed

text \<open>
  C8. When the selector of a step matches one or several elements, the step acts on
  the first of them in document order and on no other element, and several matches are
  no error: the step does not raise when the Playwright calls it makes do not.
\<close>

theorem first_match_acted_upon:
  assumes "(sel # rest, step) \<in> set (ui_steps B)"
    and "locator B sel (world s) = e # es"
  shows "acted_on (new_calls s (snd (step s))) = [e]
       \<and> ((\<forall>c w. fst (perform B c w) = None) \<longrightarrow> fst (step s) = None)"
  using step_acts_on_first [OF assms] step_no_raise [OF assms] by blast

theorem first_match_acted_upon_witness:
  "([sel_generate], generate_step (example_browser all_match never_fails)) \<in> set (ui_steps (example_browser all_match never_fails))
   \<and> locator (example_browser all_match never_fails) sel_generate (world (start ())) = [7, 3, 9]
   \<and> (\<forall>c w. fst (perform (example_browser all_match never_fails) c w) = None)
   \<and> acted_on (new_calls (start ()) (snd (generate_step (example_browser all_match never_fails) (start ())))) = [7]
   \<and> fst (generate_step (example_browser all_match never_fails) (start ())) = None"
proof -
  have a: "([sel_generate], generate_step (example_browser all_match never_fails)) \<in> set (ui_steps (example_browser all_match never_fails))"
    by (simp add: ui_steps_def)
  have b: "locator (example_browser all_match never_fails) sel_generate (world (start ())) = 7 # [3, 9]"
    by (simp add: example_browser_def all_match_def)
  have c: "\<forall>c w. fst (perform (example_browser all_match never_fails) c w) = None"
    by (simp add: example_browser_def never_fails_def)
  show ?thesis
    using a b c first_match_acted_upon [OF a b] by simp
qed

text \<open>
  C9. The checkbox step of test-proof.py clicks a label or a container of the checkbox,
  never the native input: the label selector is queried first and its first match
  clicked; the container selector is queried, and its first match clicked with
  \<^verbatim>\<open>force=True\<close>, only when the label selector matches nothing. The selector of the
  native input is not queried, in either script.
\<close>

theorem checkbox_fallback_chain:
  "(locator B sel_checkbox_label (world s) = e # es \<longrightarrow>
      checkbox_step B s =
        block [do_call B (Click e False), print ''   Clicked confirmation checkbox label'']
          (s\<lparr>calls := calls s @ [Count sel_checkbox_label]\<rparr>))
   \<and> (locator B sel_checkbox_label (world s) = []
        \<and> locator B sel_checkbox_container (world s) = e # es \<longrightarrow>
      checkbox_step B s =
        block [do_call B (Click e True), print ''   Clicked checkbox container'']
          (s\<lparr>calls := calls s @ [Count sel_checkbox_label, Count sel_checkbox_container]\<rparr>))
   \<and> (locator B sel_checkbox_label (world s) = []
        \<and> locator B sel_checkbox_container (world s) = [] \<longrightarrow>
      checkbox_step B s =
        (None, s\<lparr>calls := calls s @ [Count sel_checkbox_label, Count sel_checkbox_container]\<rparr>))
   \<and> (Count sel_checkbox_container \<in> set (new_calls s (snd (checkbox_step B s)))
        \<longleftrightarrow> locator B sel_checkbox_label (world s) = [])
   \<and> Count sel_checkbox_input \<notin> set (new_calls s (snd (checkbox_step B s)))
   \<and> Count sel_checkbox_input \<notin> set (new_calls s (snd (zk_checkbox_step B s)))"
proof -
  have ne: "sel_checkbox_input \<noteq> sel_checkbox_label"
    "sel_checkbox_input \<noteq> sel_checkbox_container"
    "sel_checkbox_container \<noteq> sel_checkbox_label"
    by (simp_all add: sel_checkbox_input_def sel_checkbox_label_def sel_checkbox_container_def)
  show ?thesis
    using ne
    by (cases "locator B sel_checkbox_label (world s)";
        cases "locator B sel_checkbox_container (world s)")
       (auto simp: checkbox_step_def zk_checkbox_step_def if_count_Cons if_count_Nil
          first_click_Cons seq_def do_call_def new_calls_def skip_def
          split: prod.splits option.splits)
qed

theorem checkbox_fallback_chain_witness:
  "locator (example_browser container_only never_fails) sel_checkbox_label (world (start ())) = []
   \<and> locator (example_browser container_only never_fails) sel_checkbox_container
       (world (start ())) = [6, 2]
   \<and> checkbox_step (example_browser container_only never_fails) (start ())
       = (None, \<lparr>world = (),
                 calls = [Count sel_checkbox_label, Count sel_checkbox_container, Click 6 True],
                 out = [''   Clicked checkbox container'']\<rparr>)
   \<and> locator (example_browser all_match never_fails) sel_checkbox_label (world (start ())) = [7, 3, 9]
   \<and> checkbox_step (example_browser all_match never_fails) (start ())
       = (None, \<lparr>world = (), calls = [Count sel_checkbox_label, Click 7 False],
                 out = [''   Clicked confirmation checkbox label'']\<rparr>)"
proof -
  let ?C = "example_browser container_only never_fails"
  have ne: "sel_checkbox_label \<noteq> sel_checkbox_container"
    by (simp add: sel_checkbox_label_def sel_checkbox_container_def)
  have a: "locator ?C sel_checkbox_label (world (start ())) = []"
    using ne by (simp add: example_browser_def container_only_def)
  have b: "locator ?C sel_checkbox_container (world (start ())) = 6 # [2]"
    by (simp add: example_browser_def container_only_def)
  have c: "locator (example_browser all_match never_fails) sel_checkbox_label (world (start ())) = 7 # [3, 9]"
    by (simp add: example_browser_def all_match_def)
  have 1: "checkbox_step ?C (start ()) =
        block [do_call ?C (Click 6 True), print ''   Clicked checkbox container'']
          ((start ())\<lparr>calls := calls (start ()) @ [Count sel_checkbox_label, Count sel_checkbox_container]\<rparr>)"
    using a b checkbox_fallback_chain [of ?C "start ()" 6 "[2]"] by blast
  have 2: "checkbox_step (example_browser all_match never_fails) (start ()) =
        block [do_call (example_browser all_match never_fails) (Click 7 False), print ''   Clicked confirmation checkbox label'']
          ((start ())\<lparr>calls := calls (start ()) @ [Count sel_checkbox_label]\<rparr>)"
    using c checkbox_fallback_chain [of "example_browser all_match never_fails" "start ()" 7 "[3, 9]"] by blast
  have 3: "checkbox_step ?C (start ())
       = (None, \<lparr>world = (),
                 calls = [Count sel_checkbox_label, Count sel_checkbox_container, Click 6 True],
                 out = [''   Clicked checkbox container'']\<rparr>)"
    by (subst 1) (simp add: run_simps)
  have 4: "checkbox_step (example_browser all_match never_fails) (start ())
       = (None, \<lparr>world = (), calls = [Count sel_checkbox_label, Click 7 False],
                 out = [''   Clicked confirmation checkbox label'']\<rparr>)"
    by (subst 2) (simp add: run_simps)
  show ?thesis
    using a b c 3 4 by simp
qed

section \<open>Errors during a run\<close>




end
